theory Spec2Isabelle
  imports Main "HOL-Library.Sublist"
begin

section \<open>JavaScript values\<close>

text \<open>
  The generator works on what \<^verbatim>\<open>response.json()\<close> hands it: JSON values, plus
  \<^verbatim>\<open>undefined\<close> for a property that is not there. A string is a list of characters,
  one per code unit. A number is modelled at its integer values (what an integer
  literal of a JSON document parses to, up to the size a double holds exactly and prints
  in plain decimal digits); fractions, NaN and the infinities are outside the model. An
  object is the list of its own properties in enumeration order, which is the order
  \<^verbatim>\<open>Object.values\<close> follows.
\<close>

datatype jsval =
    JUndefined
  | JNull
  | JBool bool
  | JNum int
  | JStr string
  | JArr "jsval list"
  | JObj "(string \<times> jsval) list"

text \<open>
  What the program can throw: a \<^verbatim>\<open>TypeError\<close> of the language (a property read on
  \<^verbatim>\<open>null\<close>, a call of something that is not a function, an object with no
  primitive value), the \<^verbatim>\<open>SyntaxError\<close> of \<^verbatim>\<open>response.json()\<close>, the rejection
  of \<^verbatim>\<open>fetch\<close> itself, and the \<^verbatim>\<open>new Error(message)\<close> of the source.
\<close>

datatype error = TypeError | SyntaxError | FetchFailed | Error string

fun truthy :: "jsval \<Rightarrow> bool" where
  "truthy JUndefined = False"
| "truthy JNull = False"
| "truthy (JBool b) = b"
| "truthy (JNum n) = (n \<noteq> 0)"
| "truthy (JStr s) = (s \<noteq> [])"
| "truthy (JArr xs) = True"
| "truthy (JObj kvs) = True"

fun nullish :: "jsval \<Rightarrow> bool" where
  "nullish JUndefined = True"
| "nullish JNull = True"
| "nullish v = False"

text \<open>\<^verbatim>\<open>a || b\<close>\<close>

definition js_or :: "jsval \<Rightarrow> jsval \<Rightarrow> jsval" where
  "js_or a b = (if truthy a then a else b)"

text \<open>
  Reading a property. The names the program reads (\<^verbatim>\<open>items\<close>, \<^verbatim>\<open>createdOn\<close>,
  \<^verbatim>\<open>fieldData\<close>, \<^verbatim>\<open>id\<close>, \<^verbatim>\<open>slug\<close>, \<^verbatim>\<open>name\<close>, \<^verbatim>\<open>title\<close>, \<^verbatim>\<open>summary\<close>,
  \<^verbatim>\<open>excerpt\<close>, \<^verbatim>\<open>author\<close> and the six content field names) are not properties of
  a string, a number, a boolean, an array or of \<^verbatim>\<open>Object.prototype\<close>, so only an
  object's own property can answer. \<open>read_prop\<close> is the read on a value that is neither
  \<^verbatim>\<open>null\<close> nor \<^verbatim>\<open>undefined\<close>; \<open>get_prop\<close> is \<^verbatim>\<open>v.k\<close>, which throws on those two;
  \<open>opt_prop\<close> is \<^verbatim>\<open>v?.k\<close>.
\<close>

fun read_prop :: "jsval \<Rightarrow> string \<Rightarrow> jsval" where
  "read_prop (JObj kvs) k = (case map_of kvs k of Some v \<Rightarrow> v | None \<Rightarrow> JUndefined)"
| "read_prop v k = JUndefined"

definition get_prop :: "jsval \<Rightarrow> string \<Rightarrow> error + jsval" where
  "get_prop v k = (if nullish v then Inl TypeError else Inr (read_prop v k))"

definition opt_prop :: "jsval \<Rightarrow> string \<Rightarrow> jsval" where
  "opt_prop v k = (if nullish v then JUndefined else read_prop v k)"

text \<open>Sequencing of steps that may throw: the first throw ends the computation.\<close>

fun and_then :: "error + 'a \<Rightarrow> ('a \<Rightarrow> error + 'b) \<Rightarrow> error + 'b" where
  "and_then (Inl e) f = Inl e"
| "and_then (Inr x) f = f x"

fun collect :: "(error + 'a) list \<Rightarrow> error + 'a list" where
  "collect [] = Inr []"
| "collect (r # rs) =
     (case r of Inl e \<Rightarrow> Inl e
      | Inr x \<Rightarrow> (case collect rs of Inl e \<Rightarrow> Inl e | Inr xs \<Rightarrow> Inr (x # xs)))"

subsection \<open>Conversion to a string\<close>

text \<open>The decimal digits of a number, as a number prints in a string.\<close>

definition digit_char :: "nat \<Rightarrow> char" where
  "digit_char d = ''0123456789'' ! d"

fun digits :: "nat \<Rightarrow> string" where
  "digits n =
     (if n < 10 then [digit_char n]
      else digits (n div 10) @ [digit_char (n mod 10)])"

definition show_int :: "int \<Rightarrow> string" where
  "show_int i = (if i < 0 then CHR ''-'' # digits (nat (- i)) else digits (nat i))"

fun join :: "string \<Rightarrow> string list \<Rightarrow> string" where
  "join sep [] = []"
| "join sep [s] = s"
| "join sep (s # t # ss) = s @ sep @ join sep (t # ss)"

text \<open>
  The language's \<^verbatim>\<open>ToString\<close>, which a template literal applies to each \<^verbatim>\<open>${...}\<close>.
  An array is joined with commas, \<^verbatim>\<open>null\<close> and \<^verbatim>\<open>undefined\<close> elements giving the
  empty string. An object parsed from JSON answers \<^verbatim>\<open>[object Object]\<close> through
  \<^verbatim>\<open>Object.prototype.toString\<close>, unless it has an own property \<^verbatim>\<open>toString\<close>: that
  one is a JSON value, so not callable, and the conversion throws. A number prints in
  plain decimal digits, as JavaScript prints an integer of fewer than 22 digits; from
  there on JavaScript prints an exponent, which is outside the model.
\<close>

fun to_str :: "jsval \<Rightarrow> error + string" where
  "to_str JUndefined = Inr ''undefined''"
| "to_str JNull = Inr ''null''"
| "to_str (JBool b) = Inr (if b then ''true'' else ''false'')"
| "to_str (JNum n) = Inr (show_int n)"
| "to_str (JStr s) = Inr s"
| "to_str (JArr xs) =
     (case collect (map (\<lambda>x. if nullish x then Inr [] else to_str x) xs) of
        Inl e \<Rightarrow> Inl e
      | Inr ss \<Rightarrow> Inr (join '','' ss))"
| "to_str (JObj kvs) =
     (if map_of kvs ''toString'' = None then Inr ''[object Object]'' else Inl TypeError)"

text \<open>
  The method call \<^verbatim>\<open>v.toString()\<close>: a \<^verbatim>\<open>TypeError\<close> on \<^verbatim>\<open>null\<close> and
  \<^verbatim>\<open>undefined\<close>; on every other value the method found is the one \<^verbatim>\<open>ToString\<close>
  would use.
\<close>

definition toString_call :: "jsval \<Rightarrow> error + string" where
  "toString_call v = (if nullish v then Inl TypeError else to_str v)"

text \<open>The values whose conversion to a string does not throw.\<close>

fun stringable :: "jsval \<Rightarrow> bool" where
  "stringable (JArr xs) = list_all stringable xs"
| "stringable (JObj kvs) = (map_of kvs ''toString'' = None)"
| "stringable v = True"

subsection \<open>String operations\<close>

text \<open>
  \<^verbatim>\<open>s.replace(/pat/g, rep)\<close> for a literal, non-empty pattern: the matches are found
  from left to right and do not overlap.
\<close>

fun replace_all :: "string \<Rightarrow> string \<Rightarrow> string \<Rightarrow> string" where
  "replace_all pat rep [] = []"
| "replace_all pat rep (c # cs) =
     (if prefix pat (c # cs) then rep @ replace_all pat rep (drop (length pat - 1) cs)
      else c # replace_all pat rep cs)"

text \<open>\<^verbatim>\<open>s.includes(sub)\<close>\<close>

fun str_includes :: "string \<Rightarrow> string \<Rightarrow> bool" where
  "str_includes [] sub = (sub = [])"
| "str_includes (c # cs) sub = (prefix sub (c # cs) \<or> str_includes cs sub)"

text \<open>\<^verbatim>\<open>s.split(sep)\<close> for a separator of one character.\<close>

fun str_split :: "char \<Rightarrow> string \<Rightarrow> string list" where
  "str_split sep [] = [[]]"
| "str_split sep (c # cs) =
     (if c = sep then [] # str_split sep cs
      else (case str_split sep cs of p # ps \<Rightarrow> (c # p) # ps | [] \<Rightarrow> [[c]]))"



section \<open>The XML escaper\<close>

definition escapeXml :: "jsval \<Rightarrow> error + string" where
  "escapeXml str =
     (if \<not> truthy str then Inr []
      else and_then (toString_call str) (\<lambda>s. Inr
        (replace_all [CHR 0x27] ''&#39;''
          (replace_all [CHR 0x22] ''&quot;''
            (replace_all ''>'' ''&gt;''
              (replace_all ''<'' ''&lt;''
                (replace_all ''&'' ''&amp;'' s)))))))"

text \<open>
  The entity that stands for one character in escaped text. It is not in the source,
  which replaces one reserved character after the other over the whole string; it
  serves to state what that chain of replacements computes.
\<close>

definition entity_of :: "char \<Rightarrow> string" where
  "entity_of c =
     (if c = CHR ''&'' then ''&amp;''
      else if c = CHR ''<'' then ''&lt;''
      else if c = CHR ''>'' then ''&gt;''
      else if c = CHR 0x22 then ''&quot;''
      else if c = CHR 0x27 then ''&#39;''
      else [c])"

section \<open>The content extractor\<close>

text \<open>
  \<^verbatim>\<open>content.includes(x)\<close>: the substring test of a string, the membership test of an
  array; no other JSON value has a callable \<^verbatim>\<open>includes\<close>.
\<close>

fun includes_call :: "jsval \<Rightarrow> string \<Rightarrow> error + bool" where
  "includes_call (JStr s) x = Inr (str_includes s x)"
| "includes_call (JArr vs) x = Inr (List.member vs (JStr x))"
| "includes_call v x = Inl TypeError"

text \<open>\<^verbatim>\<open>content.replace(/pat/g, rep)\<close>: only a string has the method.\<close>

fun replace_call :: "jsval \<Rightarrow> string \<Rightarrow> string \<Rightarrow> error + jsval" where
  "replace_call (JStr s) pat rep = Inr (JStr (replace_all pat rep s))"
| "replace_call v pat rep = Inl TypeError"

definition processRichTextContent :: "jsval \<Rightarrow> error + jsval" where
  "processRichTextContent content =
     (if \<not> truthy content then Inr (JStr [])
      else and_then (includes_call content ''<'') (\<lambda>lt.
           and_then (if lt then includes_call content ''>'' else Inr False) (\<lambda>gt.
             if gt then Inr content
             else and_then (replace_call content ''\<newline>\<newline>'' ''</p><p>'') (\<lambda>c.
                  replace_call c ''\<newline>'' ''<br>''))))"

definition isLikelyContent :: "string \<Rightarrow> bool" where
  "isLikelyContent str =
     (str_includes str ''<p>'' \<or> str_includes str ''<h'' \<or> str_includes str ''<div'' \<or>
      (length (str_split CHR '' '' str) > 20 \<and> \<not> str_includes str ''@''
         \<and> \<not> str_includes str ''http''))"

text \<open>
  The number of words of a string as a reader counts them: the maximal runs of characters
  that are not white space (space, tab, line feed, vertical tab, form feed, carriage
  return). It is not in the source, whose measure \<^verbatim>\<open>str.split(' ').length\<close> counts
  the pieces between single spaces, empty ones included; it serves to compare the two.
  The flag of \<open>count_words\<close> says whether the character before was inside a word.
\<close>

definition is_whitespace :: "char \<Rightarrow> bool" where
  "is_whitespace c =
     (c = CHR '' '' \<or> c = CHR 0x09 \<or> c = CHR 0x0A \<or> c = CHR 0x0B \<or> c = CHR 0x0C
      \<or> c = CHR 0x0D)"

fun count_words :: "bool \<Rightarrow> string \<Rightarrow> nat" where
  "count_words inside [] = 0"
| "count_words inside (c # cs) =
     (if is_whitespace c then count_words False cs
      else (if inside then 0 else 1) + count_words True cs)"

definition word_count :: "string \<Rightarrow> nat" where
  "word_count s = count_words False s"

definition contentFields :: "string list" where
  "contentFields =
     [''content'', ''body'', ''post-body'', ''main-content'', ''rich-text'', ''blog-content'']"

text \<open>
  The loop over the candidate names: \<^verbatim>\<open>fullContent\<close> starts as the empty string and
  takes the first truthy \<^verbatim>\<open>fieldData[fieldName]\<close>, where the loop breaks.
\<close>

fun find_content :: "jsval \<Rightarrow> string list \<Rightarrow> jsval" where
  "find_content fieldData [] = JStr []"
| "find_content fieldData (fieldName # rest) =
     (if truthy (read_prop fieldData fieldName) then read_prop fieldData fieldName
      else find_content fieldData rest)"

text \<open>
  \<^verbatim>\<open>Object.values\<close>: the property values of an object, the elements of an array,
  the characters of a string, nothing for a number or a boolean.
\<close>

fun object_values :: "jsval \<Rightarrow> jsval list" where
  "object_values (JObj kvs) = map snd kvs"
| "object_values (JArr vs) = vs"
| "object_values (JStr s) = map (\<lambda>c. JStr [c]) s"
| "object_values v = []"

text \<open>The \<^verbatim>\<open>forEach\<close> of the fallback, with \<^verbatim>\<open>fullContent\<close> as the accumulator.\<close>

fun scan_values :: "string \<Rightarrow> jsval list \<Rightarrow> string" where
  "scan_values fullContent [] = fullContent"
| "scan_values fullContent (v # vs) =
     scan_values
       (case v of
          JStr s \<Rightarrow>
            if length s > 100 \<and> isLikelyContent s then fullContent @ s @ ''\<newline>\<newline>''
            else fullContent
        | _ \<Rightarrow> fullContent) vs"

definition extractFullContent :: "jsval \<Rightarrow> error + jsval" where
  "extractFullContent fieldData =
     (if \<not> truthy fieldData then Inr (JStr [])
      else
        let found = find_content fieldData contentFields;
            fullContent =
              (if \<not> truthy found then JStr (scan_values [] (object_values fieldData))
               else found)
        in if truthy fullContent then processRichTextContent fullContent
           else Inr fullContent)"

section \<open>The feed renderer\<close>

text \<open>
  The configuration read from the process environment, each public value with the
  default of the source (\<^verbatim>\<open>process.env.X || default\<close>: an unset or empty variable
  gives the default).
\<close>

record config =
  site_url :: string
  site_name :: string
  site_description :: string

definition env_or :: "string option \<Rightarrow> string \<Rightarrow> string" where
  "env_or v d = (case v of None \<Rightarrow> d | Some s \<Rightarrow> if s = [] then d else s)"

definition load_config :: "(string \<Rightarrow> string option) \<Rightarrow> config" where
  "load_config env =
     \<lparr>site_url = env_or (env ''SITE_URL'') ''https://yoursite.com'',
      site_name = env_or (env ''SITE_NAME'') ''Your Blog'',
      site_description = env_or (env ''SITE_DESCRIPTION'') ''Latest blog posts''\<rparr>"

text \<open>
  The runtime's clock and date formatting: \<open>now\<close> is \<^verbatim>\<open>new Date().toUTCString()\<close>
  at the start of the rendering, \<open>utc_of p\<close> is \<^verbatim>\<open>new Date(p).toUTCString()\<close> for a
  primitive \<open>p\<close> (it never throws: a date that does not parse prints as
  \<^verbatim>\<open>Invalid Date\<close>). Both belong to the runtime and are parameters here.
\<close>

record clock =
  now :: string
  utc_of :: "jsval \<Rightarrow> string"

text \<open>A clock for the examples: its runtime parses no date.\<close>

definition epoch_clock :: clock where
  "epoch_clock =
     \<lparr>now = ''Thu, 01 Jan 1970 00:00:00 GMT'', utc_of = (\<lambda>p. ''Invalid Date'')\<rparr>"

text \<open>
  \<^verbatim>\<open>new Date(v)\<close> first takes the primitive value of \<open>v\<close>, which for an array or an
  object is its string conversion and may throw.
\<close>

fun to_primitive :: "jsval \<Rightarrow> error + jsval" where
  "to_primitive (JArr vs) = and_then (to_str (JArr vs)) (\<lambda>s. Inr (JStr s))"
| "to_primitive (JObj kvs) = and_then (to_str (JObj kvs)) (\<lambda>s. Inr (JStr s))"
| "to_primitive v = Inr v"

definition date_utc :: "clock \<Rightarrow> jsval \<Rightarrow> error + string" where
  "date_utc clk v = and_then (to_primitive v) (\<lambda>p. Inr (utc_of clk p))"

text \<open>The template of one item, from the strings computed for it.\<close>

definition item_xml :: "string \<Rightarrow> string \<Rightarrow> string \<Rightarrow> string \<Rightarrow> string \<Rightarrow> string \<Rightarrow> string" where
  "item_xml title postUrl postDate author description content =
     ''\<newline>    <item>\<newline>      <title>'' @ title @ ''</title>\<newline>      <link>'' @ postUrl
     @ ''</link>\<newline>      <guid isPermaLink=\"true\">'' @ postUrl
     @ ''</guid>\<newline>      <pubDate>'' @ postDate @ ''</pubDate>\<newline>      ''
     @ (if author \<noteq> [] then ''<author>'' @ author @ ''</author>'' else [])
     @ ''\<newline>      <description><![CDATA['' @ description
     @ '']]></description>\<newline>      <content:encoded><![CDATA['' @ content
     @ '']]></content:encoded>\<newline>    </item>''"

text \<open>The callback of \<^verbatim>\<open>posts.map\<close>: one record to one item fragment.\<close>

definition render_item :: "config \<Rightarrow> clock \<Rightarrow> jsval \<Rightarrow> error + string" where
  "render_item cfg clk post =
     and_then (get_prop post ''createdOn'') (\<lambda>createdOn.
     and_then (if truthy createdOn then date_utc clk createdOn else Inr (now clk)) (\<lambda>postDate.
     and_then (get_prop post ''fieldData'') (\<lambda>fieldData.
     and_then (to_str (js_or (opt_prop fieldData ''slug'') (read_prop post ''id''))) (\<lambda>slug.
     let postUrl = site_url cfg @ ''/blog/'' @ slug in
     and_then (escapeXml (js_or (opt_prop fieldData ''name'')
                 (js_or (opt_prop fieldData ''title'') (JStr ''Untitled Post'')))) (\<lambda>title.
     and_then (escapeXml (js_or (opt_prop fieldData ''summary'')
                 (js_or (opt_prop fieldData ''excerpt'') (JStr [])))) (\<lambda>description.
     and_then (extractFullContent fieldData) (\<lambda>content.
     and_then (escapeXml (js_or (opt_prop fieldData ''author'') (JStr []))) (\<lambda>author.
     and_then (to_str content) (\<lambda>contentText.
       Inr (item_xml title postUrl postDate author description contentText))))))))))"

text \<open>The channel envelope around the items.\<close>

definition channel_xml :: "config \<Rightarrow> string \<Rightarrow> string \<Rightarrow> string \<Rightarrow> string \<Rightarrow> string" where
  "channel_xml cfg title description lastBuild rssItems =
     ''<?xml version=\"1.0\" encoding=\"UTF-8\"?>\<newline><rss version=\"2.0\" \<newline>''
     @ ''     xmlns:content=\"http://purl.org/rss/1.0/modules/content/\"\<newline>''
     @ ''     xmlns:atom=\"http://www.w3.org/2005/Atom\">\<newline>  <channel>\<newline>    <title>''
     @ title @ ''</title>\<newline>    <link>'' @ site_url cfg
     @ ''</link>\<newline>    <description>'' @ description
     @ ''</description>\<newline>    <language>en-us</language>\<newline>    <lastBuildDate>''
     @ lastBuild @ ''</lastBuildDate>\<newline>    <atom:link href=\"'' @ site_url cfg
     @ ''/api/rss\" rel=\"self\" type=\"application/rss+xml\" />\<newline>    '' @ rssItems
     @ ''\<newline>  </channel>\<newline></rss>''"

text \<open>
  \<^verbatim>\<open>posts.map(...)\<close> needs an array: no other JSON value has a callable \<^verbatim>\<open>map\<close>.
  The callback runs on the elements from left to right, and the first throw ends it.
\<close>

definition generateRSS :: "config \<Rightarrow> clock \<Rightarrow> jsval \<Rightarrow> error + string" where
  "generateRSS cfg clk posts =
     (case posts of
        JArr ps \<Rightarrow>
          and_then (collect (map (render_item cfg clk) ps)) (\<lambda>items.
          and_then (escapeXml (JStr (site_name cfg))) (\<lambda>title.
          and_then (escapeXml (JStr (site_description cfg))) (\<lambda>description.
            Inr (channel_xml cfg title description (now clk) (concat items)))))
      | _ \<Rightarrow> Inl TypeError)"

section \<open>The collection fetcher and the request handler\<close>

text \<open>
  What the one call of \<^verbatim>\<open>fetch\<close> comes back with: a rejection, or a response with
  its status line and its body, the body being \<open>None\<close> when it is not JSON.
\<close>

record response =
  status :: nat
  statusText :: string
  json :: "jsval option"

datatype fetch_outcome = Rejected | Responded response

definition ok :: "response \<Rightarrow> bool" where
  "ok r = (200 \<le> status r \<and> status r \<le> 299)"

definition fetchWebflowPosts :: "fetch_outcome \<Rightarrow> error + jsval" where
  "fetchWebflowPosts outcome =
     (case outcome of
        Rejected \<Rightarrow> Inl FetchFailed
      | Responded r \<Rightarrow>
          if \<not> ok r then
            Inl (Error (''Webflow API error: '' @ digits (status r) @ '' '' @ statusText r))
          else (case json r of
                  None \<Rightarrow> Inl SyntaxError
                | Some data \<Rightarrow>
                    and_then (get_prop data ''items'') (\<lambda>items. Inr (js_or items (JArr [])))))"

text \<open>
  The response object of the host: the headers set so far, what was sent, and what was
  written to the error log. \<^verbatim>\<open>res.status(n).send(s)\<close> and \<^verbatim>\<open>res.status(n).json(v)\<close>
  each send one response.
\<close>

datatype body = Text string | Json jsval

record res =
  headers :: "(string \<times> string) list"
  sent :: "(nat \<times> body) list"
  logged :: "error list"

definition setHeader :: "string \<Rightarrow> string \<Rightarrow> res \<Rightarrow> res" where
  "setHeader k v r = r\<lparr>headers := (k, v) # filter (\<lambda>h. fst h \<noteq> k) (headers r)\<rparr>"

definition respond :: "nat \<Rightarrow> body \<Rightarrow> res \<Rightarrow> res" where
  "respond code b r = r\<lparr>sent := sent r @ [(code, b)]\<rparr>"

definition new_res :: res where
  "new_res = \<lparr>headers = [], sent = [], logged = []\<rparr>"

definition error_body :: jsval where
  "error_body = JObj [(''error'', JStr ''Failed to generate RSS feed'')]"

definition handler :: "config \<Rightarrow> clock \<Rightarrow> fetch_outcome \<Rightarrow> res \<Rightarrow> res" where
  "handler cfg clk outcome r0 =
     (let r1 = setHeader ''Access-Control-Allow-Origin'' ''*'' r0;
          r2 = setHeader ''Content-Type'' ''application/rss+xml; charset=utf-8'' r1
      in case and_then (fetchWebflowPosts outcome) (generateRSS cfg clk) of
           Inr rssXml \<Rightarrow> respond 200 (Text rssXml) r2
         | Inl e \<Rightarrow> respond 500 (Json error_body) (r2\<lparr>logged := logged r2 @ [e]\<rparr>))"

section \<open>Properties of the conversions\<close>

lemma collect_ok_iff: "(\<exists>xs. collect rs = Inr xs) = (\<forall>r\<in>set rs. \<exists>x. r = Inr x)"
proof (induction rs)
  case Nil
  show ?case by simp
next
  case (Cons r rs)
  show ?case
  proof (cases r)
    case (Inl e)
    then show ?thesis by auto
  next
    case (Inr x)
    with Cons show ?thesis by (cases "collect rs") auto
  qed
qed

lemma collect_error: "collect rs = Inl e \<Longrightarrow> Inl e \<in> set rs"
  by (induction rs arbitrary: e) (auto split: sum.splits)

lemma to_str_error: "to_str v = Inl e \<Longrightarrow> e = TypeError"
proof (induction v arbitrary: e rule: to_str.induct)
  case (6 xs)
  from "6.prems" obtain e'
    where c: "collect (map (\<lambda>x. if nullish x then Inr [] else to_str x) xs) = Inl e'"
      and "e = e'"
    by (auto split: sum.splits)
  from collect_error [OF c] obtain x
    where "x \<in> set xs" "\<not> nullish x" "to_str x = Inl e'"
    by (auto split: if_splits)
  with "6.IH" \<open>e = e'\<close> show ?case by blast
qed (auto split: if_splits)

lemma to_str_ok_iff: "(\<exists>s. to_str v = Inr s) = stringable v"
proof (induction v rule: to_str.induct)
  case (6 xs)
  have "(\<exists>s. to_str (JArr xs) = Inr s)
      = (\<exists>ss. collect (map (\<lambda>x. if nullish x then Inr [] else to_str x) xs) = Inr ss)"
    by (auto split: sum.splits)
  also have "\<dots> = (\<forall>x\<in>set xs. nullish x \<or> (\<exists>s. to_str x = Inr s))"
    by (auto simp: collect_ok_iff)
  also have "\<dots> = (\<forall>x\<in>set xs. stringable x)"
  proof (intro ball_cong refl)
    fix x assume x: "x \<in> set xs"
    show "(nullish x \<or> (\<exists>s. to_str x = Inr s)) = stringable x"
    proof (cases "nullish x")
      case True
      then show ?thesis by (cases x) auto
    next
      case False
      with "6.IH" [OF x] show ?thesis by simp
    qed
  qed
  finally show ?case by (simp add: list_all_iff)
qed auto

lemma and_then_Inr_iff: "(and_then m f = Inr y) = (\<exists>x. m = Inr x \<and> f x = Inr y)"
  by (cases m) auto


section \<open>Properties of the escaper\<close>

lemma replace_all_char:
  "replace_all [c] rep s = concat (map (\<lambda>x. if x = c then rep else [x]) s)"
  by (induction s) auto

text \<open>
  Replacing the ampersand first is what makes the five replacements, done one after the
  other over the whole string, come out as one substitution per character.
\<close>

lemma escape_chain_charwise:
  "replace_all [CHR 0x27] ''&#39;''
     (replace_all [CHR 0x22] ''&quot;''
       (replace_all ''>'' ''&gt;''
         (replace_all ''<'' ''&lt;''
           (replace_all ''&'' ''&amp;'' s)))) = concat (map entity_of s)"
  by (induction s) (simp_all add: replace_all_char entity_of_def)

lemma entity_of_clean:
  "CHR ''<'' \<notin> set (entity_of c)" "CHR ''>'' \<notin> set (entity_of c)"
  "CHR 0x22 \<notin> set (entity_of c)" "CHR 0x27 \<notin> set (entity_of c)"
  by (simp_all add: entity_of_def)

lemma escapeXml_charwise:
  "escapeXml v =
     (if \<not> truthy v then Inr []
      else and_then (to_str v) (\<lambda>s. Inr (concat (map entity_of s))))"
  by (cases v) (simp_all add: escapeXml_def toString_call_def escape_chain_charwise)

lemma escapeXml_ok_iff: "(\<exists>s. escapeXml v = Inr s) = (truthy v \<longrightarrow> stringable v)"
proof (cases "truthy v")
  case False
  then show ?thesis by (simp add: escapeXml_charwise)
next
  case True
  have "(\<exists>s. escapeXml v = Inr s) = (\<exists>s. to_str v = Inr s)"
    using True by (cases "to_str v") (simp_all add: escapeXml_charwise)
  with True show ?thesis by (simp add: to_str_ok_iff)
qed

text \<open>
  C5, as the claim has it, fails where it says that the escaper never fails: an object
  parsed from JSON that has an own property \<^verbatim>\<open>toString\<close> is truthy, and calling
  \<^verbatim>\<open>str.toString()\<close> on it throws a \<^verbatim>\<open>TypeError\<close>.
\<close>

theorem escapeXml_throws_counterexample:
  "escapeXml (JObj [(''toString'', JNum 1)]) = Inl TypeError"
  by (simp add: escapeXml_def toString_call_def)

text \<open>
  C5, amended: the escaper maps every falsy input (\<^verbatim>\<open>null\<close>, \<^verbatim>\<open>undefined\<close>, the
  empty string, 0, \<^verbatim>\<open>false\<close>) to the empty string. Every other input is converted
  to a string and the five reserved characters are replaced in the fixed order
  \<^verbatim>\<open>&\<close>, \<^verbatim>\<open><\<close>, \<^verbatim>\<open>>\<close>, the double quote, the single quote. Applied once to
  \<^verbatim>\<open><a>&"'\<close> it yields \<^verbatim>\<open>&lt;a&gt;&amp;&quot;&#39;\<close>. It returns a string exactly
  when the input is falsy or its conversion to a string does not throw, which covers
  every string, number and boolean; the inputs it fails on are the objects with an own
  property \<^verbatim>\<open>toString\<close> and the arrays that hold one.
\<close>

theorem escapeXml_falsy_then_ordered_replacement:
  "escapeXml JNull = Inr [] \<and> escapeXml JUndefined = Inr [] \<and> escapeXml (JStr []) = Inr []
   \<and> escapeXml (JNum 0) = Inr [] \<and> escapeXml (JBool False) = Inr []
   \<and> (\<not> truthy v \<longrightarrow> escapeXml v = Inr [])
   \<and> (truthy v \<longrightarrow>
        escapeXml v = and_then (to_str v) (\<lambda>s. Inr
          (replace_all [CHR 0x27] ''&#39;''
            (replace_all [CHR 0x22] ''&quot;''
              (replace_all ''>'' ''&gt;''
                (replace_all ''<'' ''&lt;''
                  (replace_all ''&'' ''&amp;'' s)))))))
   \<and> ((\<exists>s. escapeXml v = Inr s) = (truthy v \<longrightarrow> stringable v))
   \<and> escapeXml (JStr (''<a>&\"'' @ [CHR 0x27])) = Inr ''&lt;a&gt;&amp;&quot;&#39;''"
proof -
  have falsy: "\<not> truthy v \<longrightarrow> escapeXml v = Inr []"
    by (simp add: escapeXml_def)
  have chain: "truthy v \<longrightarrow>
        escapeXml v = and_then (to_str v) (\<lambda>s. Inr
          (replace_all [CHR 0x27] ''&#39;''
            (replace_all [CHR 0x22] ''&quot;''
              (replace_all ''>'' ''&gt;''
                (replace_all ''<'' ''&lt;''
                  (replace_all ''&'' ''&amp;'' s))))))"
    by (cases v) (simp_all add: escapeXml_def toString_call_def)
  have example: "escapeXml (JStr (''<a>&\"'' @ [CHR 0x27])) = Inr ''&lt;a&gt;&amp;&quot;&#39;''"
    by (simp add: escapeXml_def toString_call_def)
  show ?thesis
    using falsy chain example escapeXml_ok_iff [of v] by (simp add: escapeXml_def)
qed

theorem escapeXml_falsy_then_ordered_replacement_witness:
  "\<not> truthy (JNum 0) \<and> escapeXml (JNum 0) = Inr []
   \<and> truthy (JStr ''Q&A'') \<and> stringable (JStr ''Q&A'')
   \<and> escapeXml (JStr ''Q&A'') = Inr ''Q&amp;A''"
  using escapeXml_falsy_then_ordered_replacement [of "JNum 0"]
        escapeXml_falsy_then_ordered_replacement [of "JStr ''Q&A''"]
  by simp

text \<open>
  C10: for every input, the string the escaper returns has no raw \<^verbatim>\<open><\<close>, \<^verbatim>\<open>>\<close>,
  double quote or single quote: on a string it is the concatenation of the entities of
  its characters, and no entity holds one of the four. (The inputs with no returned
  string are those on which the conversion to a string throws.)
\<close>

theorem escapeXml_output_has_no_reserved_character:
  "(case escapeXml v of
      Inr s \<Rightarrow> CHR ''<'' \<notin> set s \<and> CHR ''>'' \<notin> set s \<and> CHR 0x22 \<notin> set s \<and> CHR 0x27 \<notin> set s
    | Inl e \<Rightarrow> truthy v \<and> \<not> stringable v)
   \<and> escapeXml (JStr t) = Inr (concat (map entity_of t))"
proof -
  have clean: "CHR ''<'' \<notin> set (concat (map entity_of s)) \<and> CHR ''>'' \<notin> set (concat (map entity_of s))
      \<and> CHR 0x22 \<notin> set (concat (map entity_of s)) \<and> CHR 0x27 \<notin> set (concat (map entity_of s))"
    for s
    using entity_of_clean by simp
  have strings: "escapeXml (JStr t) = Inr (concat (map entity_of t))"
    by (simp add: escapeXml_charwise)
  show ?thesis
  proof (cases "escapeXml v")
    case (Inl e)
    with escapeXml_ok_iff [of v] strings show ?thesis by auto
  next
    case (Inr s)
    then have "s = [] \<or> (\<exists>u. s = concat (map entity_of u))"
      by (cases "to_str v") (auto simp: escapeXml_charwise split: if_splits)
    with clean Inr strings show ?thesis by auto
  qed
qed

theorem escapeXml_output_has_no_reserved_character_witness:
  "escapeXml (JStr ''<b class=\"x\">&</b>'') = Inr ''&lt;b class=&quot;x&quot;&gt;&amp;&lt;/b&gt;''
   \<and> CHR ''<'' \<notin> set ''&lt;b class=&quot;x&quot;&gt;&amp;&lt;/b&gt;''"
  using escapeXml_output_has_no_reserved_character [of "JStr ''<b class=\"x\">&</b>''" "''<b class=\"x\">&</b>''"]
  by (simp add: entity_of_def)

section \<open>Properties of the content extractor\<close>

lemma find_content_first:
  "i < length names \<Longrightarrow> truthy (read_prop fd (names ! i))
   \<Longrightarrow> \<forall>j<i. \<not> truthy (read_prop fd (names ! j))
   \<Longrightarrow> find_content fd names = read_prop fd (names ! i)"
proof (induction names arbitrary: i)
  case Nil
  then show ?case by simp
next
  case (Cons n ns)
  show ?case
  proof (cases i)
    case 0
    with Cons.prems show ?thesis by simp
  next
    case (Suc k)
    from Cons.prems Suc have head: "\<not> truthy (read_prop fd n)" by auto
    from Cons.prems Suc have "\<forall>j<k. \<not> truthy (read_prop fd (ns ! j))" by auto
    with Cons.IH [of k] Cons.prems Suc have "find_content fd ns = read_prop fd (ns ! k)"
      by simp
    with head Suc show ?thesis by simp
  qed
qed

lemma find_content_none:
  "\<forall>n\<in>set names. \<not> truthy (read_prop fd n) \<Longrightarrow> find_content fd names = JStr []"
  by (induction names) auto

lemma read_prop_truthy: "truthy (read_prop fd k) \<Longrightarrow> truthy fd"
  by (cases fd) auto

lemma str_includes_char: "str_includes s [c] = (c \<in> set s)"
  by (induction s) auto

lemma set_replace_all_char:
  "set (replace_all [c] rep s) = (set s - {c}) \<union> (if c \<in> set s then set rep else {})"
  by (induction s) (auto simp: replace_all_char)

lemma scan_values_eq:
  "scan_values acc vs =
     acc @ concat (map (\<lambda>v. case v of JStr s \<Rightarrow> s @ ''\<newline>\<newline>'' | _ \<Rightarrow> [])
       (filter (\<lambda>v. case v of JStr s \<Rightarrow> 100 < length s \<and> isLikelyContent s | _ \<Rightarrow> False) vs))"
  by (induction vs arbitrary: acc) (auto split: jsval.splits)

lemma str_split_not_empty: "str_split sep s \<noteq> []"
  by (induction s) (auto split: list.splits)

lemma length_str_split_Cons:
  "length (str_split sep (c # cs)) =
     (if c = sep then Suc (length (str_split sep cs)) else length (str_split sep cs))"
  using str_split_not_empty [of sep cs] by (cases "str_split sep cs") auto

text \<open>
  In a text whose only white space is the space character, every word lies in a piece
  of its own, so there are at least as many pieces as words.
\<close>

lemma count_words_le_pieces:
  "\<forall>c\<in>set s. is_whitespace c \<longrightarrow> c = CHR '' ''
   \<Longrightarrow> count_words inside s + (if inside then 1 else 0) \<le> length (str_split CHR '' '' s)"
proof (induction s arbitrary: inside)
  case Nil
  show ?case by simp
next
  case (Cons c cs)
  then have only: "\<forall>c\<in>set cs. is_whitespace c \<longrightarrow> c = CHR '' ''"
    and head: "is_whitespace c \<longrightarrow> c = CHR '' ''"
    by simp_all
  show ?case
  proof (cases "is_whitespace c")
    case True
    with head have "c = CHR '' ''" by simp
    with Cons.IH [OF only, of False] show ?thesis
      by (simp add: length_str_split_Cons is_whitespace_def del: str_split.simps)
  next
    case False
    then have "c \<noteq> CHR '' ''" by (auto simp: is_whitespace_def)
    with False Cons.IH [OF only, of True] show ?thesis
      by (simp add: length_str_split_Cons del: str_split.simps)
  qed
qed

lemma word_count_le:
  "\<forall>c\<in>set s. is_whitespace c \<longrightarrow> c = CHR '' ''
   \<Longrightarrow> word_count s \<le> length (str_split CHR '' '' s)"
  using count_words_le_pieces [of s False] by (simp add: word_count_def)

lemma extract_fallback:
  assumes "truthy fieldData" "\<forall>n\<in>set contentFields. \<not> truthy (read_prop fieldData n)"
  shows "extractFullContent fieldData =
    (if scan_values [] (object_values fieldData) = [] then Inr (JStr [])
     else processRichTextContent (JStr (scan_values [] (object_values fieldData))))"
  using assms(1) find_content_none [OF assms(2)]
  by (simp add: extractFullContent_def)

text \<open>
  C2: the candidate names are probed in the order \<^verbatim>\<open>content\<close>, \<^verbatim>\<open>body\<close>,
  \<^verbatim>\<open>post-body\<close>, \<^verbatim>\<open>main-content\<close>, \<^verbatim>\<open>rich-text\<close>, \<^verbatim>\<open>blog-content\<close>. When the
  candidate at position \<open>i\<close> is the first one with a non-empty (truthy) value, that value
  is the content that goes to normalization, and nothing else of the mapping has a part
  in the result: the heuristic scan is not run.
\<close>

theorem extractFullContent_first_candidate_wins:
  assumes "i < length contentFields"
    and "truthy (read_prop fieldData (contentFields ! i))"
    and "\<forall>j<i. \<not> truthy (read_prop fieldData (contentFields ! j))"
  shows "contentFields =
           [''content'', ''body'', ''post-body'', ''main-content'', ''rich-text'', ''blog-content'']
       \<and> extractFullContent fieldData =
           processRichTextContent (read_prop fieldData (contentFields ! i))"
proof -
  from assms have f: "find_content fieldData contentFields = read_prop fieldData (contentFields ! i)"
    by (rule find_content_first)
  from assms(2) have "truthy fieldData" by (rule read_prop_truthy)
  with f assms(2) show ?thesis by (simp add: extractFullContent_def contentFields_def)
qed

theorem extractFullContent_first_candidate_wins_witness:
  "contentFields ! 1 = ''body''
   \<and> \<not> truthy (read_prop (JObj [(''rich-text'', JStr ''<p>R</p>''), (''body'', JStr ''<p>B</p>'')])
          (contentFields ! 0))
   \<and> extractFullContent (JObj [(''rich-text'', JStr ''<p>R</p>''), (''body'', JStr ''<p>B</p>'')])
       = Inr (JStr ''<p>B</p>'')"
  using extractFullContent_first_candidate_wins
    [of 1 "JObj [(''rich-text'', JStr ''<p>R</p>''), (''body'', JStr ''<p>B</p>'')]"]
  by (simp add: contentFields_def processRichTextContent_def)

text \<open>
  C3: a non-empty content string that contains both \<^verbatim>\<open><\<close> and \<^verbatim>\<open>>\<close> is returned
  unchanged; in any other, every double newline is replaced by \<^verbatim>\<open></p><p>\<close> and then
  every newline that is left by \<^verbatim>\<open><br>\<close>, so that none remains. On the mapping with
  the one field \<^verbatim>\<open>body\<close> holding \<^verbatim>\<open>Line one\n\nLine two\nLine three\<close> the extractor
  returns \<^verbatim>\<open>Line one</p><p>Line two<br>Line three\<close>.
\<close>

theorem processRichTextContent_normalizes:
  assumes "s \<noteq> []"
  shows "processRichTextContent (JStr s) =
           Inr (JStr (if CHR ''<'' \<in> set s \<and> CHR ''>'' \<in> set s then s
                      else replace_all ''\<newline>'' ''<br>''
                             (replace_all ''\<newline>\<newline>'' ''</p><p>'' s)))
       \<and> CHR ''\<newline>'' \<notin> set (replace_all ''\<newline>'' ''<br>''
                                 (replace_all ''\<newline>\<newline>'' ''</p><p>'' s))
       \<and> extractFullContent
           (JObj [(''body'', JStr ''Line one\<newline>\<newline>Line two\<newline>Line three'')])
         = Inr (JStr ''Line one</p><p>Line two<br>Line three'')"
proof -
  from assms have "processRichTextContent (JStr s) =
           Inr (JStr (if CHR ''<'' \<in> set s \<and> CHR ''>'' \<in> set s then s
                      else replace_all ''\<newline>'' ''<br>''
                             (replace_all ''\<newline>\<newline>'' ''</p><p>'' s)))"
    by (simp add: processRichTextContent_def str_includes_char)
  moreover have "CHR ''\<newline>'' \<notin> set (replace_all ''\<newline>'' ''<br>'' u)" for u
    by (simp add: set_replace_all_char)
  moreover have "extractFullContent
           (JObj [(''body'', JStr ''Line one\<newline>\<newline>Line two\<newline>Line three'')])
         = Inr (JStr ''Line one</p><p>Line two<br>Line three'')"
    by (simp add: extractFullContent_def contentFields_def processRichTextContent_def)
  ultimately show ?thesis by blast
qed

theorem processRichTextContent_normalizes_witness:
  "''a\<newline>\<newline>b\<newline>c'' \<noteq> []
   \<and> processRichTextContent (JStr ''a\<newline>\<newline>b\<newline>c'') = Inr (JStr ''a</p><p>b<br>c'')
   \<and> processRichTextContent (JStr ''<i>a\<newline>b</i>'') = Inr (JStr ''<i>a\<newline>b</i>'')"
  using processRichTextContent_normalizes [of "''a\<newline>\<newline>b\<newline>c''"]
        processRichTextContent_normalizes [of "''<i>a\<newline>b</i>''"]
  by simp

text \<open>
  C4, as the claim has it, fails on the word count, in both directions. The source
  counts the pieces of \<^verbatim>\<open>str.split(' ')\<close>, empty ones included. A field of 120
  characters made of 20 words and one trailing space has 21 pieces: with no marker, no
  \<^verbatim>\<open>@\<close> and no \<^verbatim>\<open>http\<close> it is selected, though its word count is 20 and not
  greater. A field of 150 characters with no \<^verbatim>\<open><\<close>, no \<^verbatim>\<open>@\<close> and no \<^verbatim>\<open>http\<close>
  that holds 24 words on 6 lines has 19 pieces only: it is not selected, and the content
  is empty.
\<close>

theorem extractFullContent_word_count_counterexample:
  "100 < length ''alpha bravo delta gamma omega sigma theta kappa zebra tiger eagle horse mouse sheep whale shark snake camel otter robin ''
   \<and> CHR ''<'' \<notin> set ''alpha bravo delta gamma omega sigma theta kappa zebra tiger eagle horse mouse sheep whale shark snake camel otter robin ''
   \<and> word_count ''alpha bravo delta gamma omega sigma theta kappa zebra tiger eagle horse mouse sheep whale shark snake camel otter robin '' = 20
   \<and> extractFullContent (JObj [(''notes'', JStr ''alpha bravo delta gamma omega sigma theta kappa zebra tiger eagle horse mouse sheep whale shark snake camel otter robin '')])
       = Inr (JStr ''alpha bravo delta gamma omega sigma theta kappa zebra tiger eagle horse mouse sheep whale shark snake camel otter robin </p><p>'')
   \<and> length ''planet silver window garden\<newline>bridge market forest alpha\<newline>bravo delta gamma omega\<newline>sigma theta kappa zebra\<newline>tiger eagle horse mouse\<newline>sheep whale shark snake'' = 150
   \<and> CHR ''<'' \<notin> set ''planet silver window garden\<newline>bridge market forest alpha\<newline>bravo delta gamma omega\<newline>sigma theta kappa zebra\<newline>tiger eagle horse mouse\<newline>sheep whale shark snake''
   \<and> CHR ''@'' \<notin> set ''planet silver window garden\<newline>bridge market forest alpha\<newline>bravo delta gamma omega\<newline>sigma theta kappa zebra\<newline>tiger eagle horse mouse\<newline>sheep whale shark snake''
   \<and> \<not> str_includes ''planet silver window garden\<newline>bridge market forest alpha\<newline>bravo delta gamma omega\<newline>sigma theta kappa zebra\<newline>tiger eagle horse mouse\<newline>sheep whale shark snake'' ''http''
   \<and> word_count ''planet silver window garden\<newline>bridge market forest alpha\<newline>bravo delta gamma omega\<newline>sigma theta kappa zebra\<newline>tiger eagle horse mouse\<newline>sheep whale shark snake'' = 24
   \<and> extractFullContent (JObj [(''notes'', JStr ''planet silver window garden\<newline>bridge market forest alpha\<newline>bravo delta gamma omega\<newline>sigma theta kappa zebra\<newline>tiger eagle horse mouse\<newline>sheep whale shark snake'')])
       = Inr (JStr [])"
proof -
  have one: "100 < length ''alpha bravo delta gamma omega sigma theta kappa zebra tiger eagle horse mouse sheep whale shark snake camel otter robin ''
   \<and> CHR ''<'' \<notin> set ''alpha bravo delta gamma omega sigma theta kappa zebra tiger eagle horse mouse sheep whale shark snake camel otter robin ''
   \<and> word_count ''alpha bravo delta gamma omega sigma theta kappa zebra tiger eagle horse mouse sheep whale shark snake camel otter robin '' = 20
   \<and> extractFullContent (JObj [(''notes'', JStr ''alpha bravo delta gamma omega sigma theta kappa zebra tiger eagle horse mouse sheep whale shark snake camel otter robin '')])
       = Inr (JStr ''alpha bravo delta gamma omega sigma theta kappa zebra tiger eagle horse mouse sheep whale shark snake camel otter robin </p><p>'')"
    by (simp add: word_count_def is_whitespace_def extractFullContent_def contentFields_def
        isLikelyContent_def processRichTextContent_def)
  have two: "length ''planet silver window garden\<newline>bridge market forest alpha\<newline>bravo delta gamma omega\<newline>sigma theta kappa zebra\<newline>tiger eagle horse mouse\<newline>sheep whale shark snake'' = 150
   \<and> CHR ''<'' \<notin> set ''planet silver window garden\<newline>bridge market forest alpha\<newline>bravo delta gamma omega\<newline>sigma theta kappa zebra\<newline>tiger eagle horse mouse\<newline>sheep whale shark snake''
   \<and> CHR ''@'' \<notin> set ''planet silver window garden\<newline>bridge market forest alpha\<newline>bravo delta gamma omega\<newline>sigma theta kappa zebra\<newline>tiger eagle horse mouse\<newline>sheep whale shark snake''
   \<and> \<not> str_includes ''planet silver window garden\<newline>bridge market forest alpha\<newline>bravo delta gamma omega\<newline>sigma theta kappa zebra\<newline>tiger eagle horse mouse\<newline>sheep whale shark snake'' ''http''
   \<and> word_count ''planet silver window garden\<newline>bridge market forest alpha\<newline>bravo delta gamma omega\<newline>sigma theta kappa zebra\<newline>tiger eagle horse mouse\<newline>sheep whale shark snake'' = 24
   \<and> extractFullContent (JObj [(''notes'', JStr ''planet silver window garden\<newline>bridge market forest alpha\<newline>bravo delta gamma omega\<newline>sigma theta kappa zebra\<newline>tiger eagle horse mouse\<newline>sheep whale shark snake'')])
       = Inr (JStr [])"
    by (simp add: word_count_def is_whitespace_def extractFullContent_def contentFields_def
        isLikelyContent_def)
  from one two show ?thesis by blast
qed

text \<open>
  C4, amended: when the mapping is there and no candidate field has a non-empty value,
  the content before normalization is the concatenation, in the order of
  \<^verbatim>\<open>Object.values\<close> and each followed by two newlines, of exactly the string values
  longer than 100 characters that contain \<^verbatim>\<open><p>\<close>, \<^verbatim>\<open><h\<close> or \<^verbatim>\<open><div\<close>, or that
  split at single spaces into more than 20 pieces (empty pieces counted) and contain
  neither \<^verbatim>\<open>@\<close> nor \<^verbatim>\<open>http\<close>; it is then normalized, and is the empty string when
  no value qualifies. In particular a single field, not named as a candidate, holding
  150 characters with no \<^verbatim>\<open><\<close>, no \<^verbatim>\<open>@\<close>, no \<^verbatim>\<open>http\<close>, no white space other
  than spaces and more than 20 words is selected.
\<close>

theorem extractFullContent_heuristic_fallback:
  "(truthy fieldData \<and> (\<forall>n\<in>set contentFields. \<not> truthy (read_prop fieldData n)) \<longrightarrow>
      extractFullContent fieldData =
        (let picked = concat (map (\<lambda>v. case v of JStr s \<Rightarrow> s @ ''\<newline>\<newline>'' | _ \<Rightarrow> [])
               (filter (\<lambda>v. case v of
                    JStr s \<Rightarrow> 100 < length s \<and>
                      (str_includes s ''<p>'' \<or> str_includes s ''<h'' \<or> str_includes s ''<div'' \<or>
                       (20 < length (str_split CHR '' '' s) \<and> \<not> str_includes s ''@''
                          \<and> \<not> str_includes s ''http''))
                  | _ \<Rightarrow> False) (object_values fieldData)))
         in if picked = [] then Inr (JStr []) else processRichTextContent (JStr picked)))
   \<and> (k \<notin> set contentFields \<and> length t = 150 \<and> CHR ''<'' \<notin> set t \<and> CHR ''@'' \<notin> set t
        \<and> \<not> str_includes t ''http'' \<and> (\<forall>c\<in>set t. is_whitespace c \<longrightarrow> c = CHR '' '')
        \<and> 20 < word_count t \<longrightarrow>
      extractFullContent (JObj [(k, JStr t)]) =
        Inr (JStr (replace_all ''\<newline>'' ''<br>''
                    (replace_all ''\<newline>\<newline>'' ''</p><p>'' (t @ ''\<newline>\<newline>'')))))"
proof (intro conjI impI)
  assume a: "truthy fieldData \<and> (\<forall>n\<in>set contentFields. \<not> truthy (read_prop fieldData n))"
  then have t: "truthy fieldData"
    and n: "\<forall>n\<in>set contentFields. \<not> truthy (read_prop fieldData n)"
    by simp_all
  show "extractFullContent fieldData =
        (let picked = concat (map (\<lambda>v. case v of JStr s \<Rightarrow> s @ ''\<newline>\<newline>'' | _ \<Rightarrow> [])
               (filter (\<lambda>v. case v of
                    JStr s \<Rightarrow> 100 < length s \<and>
                      (str_includes s ''<p>'' \<or> str_includes s ''<h'' \<or> str_includes s ''<div'' \<or>
                       (20 < length (str_split CHR '' '' s) \<and> \<not> str_includes s ''@''
                          \<and> \<not> str_includes s ''http''))
                  | _ \<Rightarrow> False) (object_values fieldData)))
         in if picked = [] then Inr (JStr []) else processRichTextContent (JStr picked))"
    unfolding extract_fallback [OF t n] scan_values_eq isLikelyContent_def Let_def append_Nil
    by (rule refl)
next
  assume b: "k \<notin> set contentFields \<and> length t = 150 \<and> CHR ''<'' \<notin> set t \<and> CHR ''@'' \<notin> set t
        \<and> \<not> str_includes t ''http'' \<and> (\<forall>c\<in>set t. is_whitespace c \<longrightarrow> c = CHR '' '')
        \<and> 20 < word_count t"
  then have none: "\<forall>n\<in>set contentFields. \<not> truthy (read_prop (JObj [(k, JStr t)]) n)"
    by auto
  from b have only: "\<forall>c\<in>set t. is_whitespace c \<longrightarrow> c = CHR '' ''" by blast
  from b word_count_le [OF only] have "20 < length (str_split CHR '' '' t)" by simp
  with b have "isLikelyContent t" by (simp add: isLikelyContent_def str_includes_char)
  with b have "scan_values [] (object_values (JObj [(k, JStr t)])) = t @ ''\<newline>\<newline>''"
    by simp
  with extract_fallback [OF _ none]
  have "extractFullContent (JObj [(k, JStr t)]) = processRichTextContent (JStr (t @ ''\<newline>\<newline>''))"
    by simp
  with b show "extractFullContent (JObj [(k, JStr t)]) =
        Inr (JStr (replace_all ''\<newline>'' ''<br>''
                    (replace_all ''\<newline>\<newline>'' ''</p><p>'' (t @ ''\<newline>\<newline>''))))"
    by (simp add: processRichTextContent_def str_includes_char)
qed

theorem extractFullContent_heuristic_fallback_witness:
  "''notes'' \<notin> set contentFields
   \<and> length ''the quick brown fox jumps over the lazy dog and then runs far away from the old red barn while the sun sets low in the west and all is calm at last no'' = 150
   \<and> 20 < word_count ''the quick brown fox jumps over the lazy dog and then runs far away from the old red barn while the sun sets low in the west and all is calm at last no''
   \<and> truthy (JObj [(''notes'', JStr ''the quick brown fox jumps over the lazy dog and then runs far away from the old red barn while the sun sets low in the west and all is calm at last no'')])
   \<and> extractFullContent (JObj [(''notes'', JStr ''the quick brown fox jumps over the lazy dog and then runs far away from the old red barn while the sun sets low in the west and all is calm at last no'')])
       = Inr (JStr (''the quick brown fox jumps over the lazy dog and then runs far away from the old red barn while the sun sets low in the west and all is calm at last no'' @ ''</p><p>''))"
  using extractFullContent_heuristic_fallback
    [of "JObj [(''notes'', JStr ''the quick brown fox jumps over the lazy dog and then runs far away from the old red barn while the sun sets low in the west and all is calm at last no'')]" "''notes''" "''the quick brown fox jumps over the lazy dog and then runs far away from the old red barn while the sun sets low in the west and all is calm at last no''"]
  by (simp add: contentFields_def word_count_def is_whitespace_def processRichTextContent_def)

section \<open>Properties of the feed renderer\<close>

lemma escapeXml_JStr: "escapeXml (JStr t) = Inr (concat (map entity_of t))"
  by (simp add: escapeXml_charwise)

lemma default_config:
  "site_url (load_config Map.empty) = ''https://yoursite.com''"
  "site_name (load_config Map.empty) = ''Your Blog''"
  "site_description (load_config Map.empty) = ''Latest blog posts''"
  by (simp_all add: load_config_def env_or_def)

lemma epoch_now: "now epoch_clock = ''Thu, 01 Jan 1970 00:00:00 GMT''"
  by (simp add: epoch_clock_def)

text \<open>
  C6: in a rendered item, the description is the first non-empty (truthy) of the
  \<^verbatim>\<open>summary\<close> and \<^verbatim>\<open>excerpt\<close> fields, or the empty string, passed through the
  escaper and then wrapped in a CDATA section; \<^verbatim>\<open>content:encoded\<close> is the output of
  the content extractor as a string, wrapped in a CDATA section with no escaping.
\<close>

theorem render_item_description_escaped_content_raw:
  assumes "render_item cfg clk post = Inr xml"
  shows "\<exists>pre description extracted content.
     escapeXml (if truthy (opt_prop (read_prop post ''fieldData'') ''summary'')
                then opt_prop (read_prop post ''fieldData'') ''summary''
                else if truthy (opt_prop (read_prop post ''fieldData'') ''excerpt'')
                then opt_prop (read_prop post ''fieldData'') ''excerpt''
                else JStr []) = Inr description
     \<and> extractFullContent (read_prop post ''fieldData'') = Inr extracted
     \<and> to_str extracted = Inr content
     \<and> xml = pre @ ''<description><![CDATA['' @ description
          @ '']]></description>\<newline>      <content:encoded><![CDATA['' @ content
          @ '']]></content:encoded>\<newline>    </item>''"
proof -
  from assms have nn: "\<not> nullish post"
    by (auto simp: render_item_def get_prop_def split: if_splits)
  from assms nn obtain title postUrl postDate author description extracted content where
    d: "escapeXml (js_or (opt_prop (read_prop post ''fieldData'') ''summary'')
          (js_or (opt_prop (read_prop post ''fieldData'') ''excerpt'') (JStr []))) = Inr description"
    and e: "extractFullContent (read_prop post ''fieldData'') = Inr extracted"
    and t: "to_str extracted = Inr content"
    and x: "xml = item_xml title postUrl postDate author description content"
    unfolding render_item_def get_prop_def Let_def
    by (auto simp: and_then_Inr_iff)
  from x have "xml =
      (''\<newline>    <item>\<newline>      <title>'' @ title @ ''</title>\<newline>      <link>'' @ postUrl
       @ ''</link>\<newline>      <guid isPermaLink=\"true\">'' @ postUrl
       @ ''</guid>\<newline>      <pubDate>'' @ postDate @ ''</pubDate>\<newline>      ''
       @ (if author \<noteq> [] then ''<author>'' @ author @ ''</author>'' else [])
       @ ''\<newline>      '')
      @ ''<description><![CDATA['' @ description
      @ '']]></description>\<newline>      <content:encoded><![CDATA['' @ content
      @ '']]></content:encoded>\<newline>    </item>''"
    by (simp add: item_xml_def)
  with d e t show ?thesis unfolding js_or_def by blast
qed

theorem render_item_description_escaped_content_raw_witness:
  "render_item (load_config Map.empty) epoch_clock
     (JObj [(''id'', JStr ''p1''),
            (''fieldData'', JObj [(''summary'', JStr ''a < b & c''),
                                  (''content'', JStr ''<p>Hi & bye</p>'')])])
   = Inr (item_xml ''Untitled Post'' ''https://yoursite.com/blog/p1''
            ''Thu, 01 Jan 1970 00:00:00 GMT'' [] ''a &lt; b &amp; c'' ''<p>Hi & bye</p>'')"
  using render_item_description_escaped_content_raw
    [of "load_config Map.empty" epoch_clock
        "JObj [(''id'', JStr ''p1''),
               (''fieldData'', JObj [(''summary'', JStr ''a < b & c''),
                                     (''content'', JStr ''<p>Hi & bye</p>'')])]"
        "item_xml ''Untitled Post'' ''https://yoursite.com/blog/p1''
            ''Thu, 01 Jan 1970 00:00:00 GMT'' [] ''a &lt; b &amp; c'' ''<p>Hi & bye</p>''"]
  by (simp add: render_item_def get_prop_def opt_prop_def js_or_def escapeXml_def
        toString_call_def extractFullContent_def contentFields_def processRichTextContent_def
        default_config epoch_now)

text \<open>
  C7 does not hold of the code. A record whose \<^verbatim>\<open>content\<close> field is the number 5 makes
  the extractor call \<^verbatim>\<open>content.includes\<close> on a number: the extractor throws, so does
  the rendering of the item, and the handler answers the whole request with status 500.
  The fallback scan of the same function does test \<^verbatim>\<open>typeof value === 'string'\<close>.
\<close>

theorem render_item_throws_on_number_content:
  "extractFullContent (JObj [(''content'', JNum 5)]) = Inl TypeError
   \<and> render_item (load_config Map.empty) epoch_clock
        (JObj [(''id'', JStr ''p1''), (''fieldData'', JObj [(''content'', JNum 5)])])
       = Inl TypeError
   \<and> sent (handler (load_config Map.empty) epoch_clock
        (Responded \<lparr>status = 200, statusText = ''OK'',
           json = Some (JObj [(''items'',
             JArr [JObj [(''id'', JStr ''p1''), (''fieldData'', JObj [(''content'', JNum 5)])]])])\<rparr>)
        new_res)
       = [(500, Json (JObj [(''error'', JStr ''Failed to generate RSS feed'')]))]"
proof -
  have e: "extractFullContent (JObj [(''content'', JNum 5)]) = Inl TypeError"
    by (simp add: extractFullContent_def contentFields_def processRichTextContent_def)
  have r: "render_item (load_config Map.empty) epoch_clock
        (JObj [(''id'', JStr ''p1''), (''fieldData'', JObj [(''content'', JNum 5)])])
       = Inl TypeError"
    by (simp add: render_item_def get_prop_def opt_prop_def js_or_def escapeXml_def
        toString_call_def e epoch_now)
  have h: "sent (handler (load_config Map.empty) epoch_clock
        (Responded \<lparr>status = 200, statusText = ''OK'',
           json = Some (JObj [(''items'',
             JArr [JObj [(''id'', JStr ''p1''), (''fieldData'', JObj [(''content'', JNum 5)])]])])\<rparr>)
        new_res)
       = [(500, Json (JObj [(''error'', JStr ''Failed to generate RSS feed'')]))]"
    by (simp add: handler_def fetchWebflowPosts_def ok_def get_prop_def js_or_def generateRSS_def
        r respond_def setHeader_def new_res_def error_body_def)
  from e r h show ?thesis by simp
qed










section \<open>Properties of the fetcher and the handler\<close>

text \<open>
  C8, as the claim has it, fails for a body that is well-formed JSON with no
  \<^verbatim>\<open>items\<close> field but is not an object: on the body \<^verbatim>\<open>null\<close> of a successful
  response, \<^verbatim>\<open>data.items\<close> throws a \<^verbatim>\<open>TypeError\<close> and no sequence is returned.
\<close>

theorem fetchWebflowPosts_null_body_counterexample:
  "fetchWebflowPosts (Responded \<lparr>status = 200, statusText = ''OK'', json = Some JNull\<rparr>)
     = Inl TypeError"
  by (simp add: fetchWebflowPosts_def get_prop_def ok_def)

text \<open>
  C8, amended: the fetcher fails with the error whose message carries the status and the
  reason of the upstream response exactly when that status is not a success (200 to
  299); and on a successful response whose body is a JSON value other than \<^verbatim>\<open>null\<close>
  with no \<^verbatim>\<open>items\<close> field it returns the empty sequence.
\<close>

theorem fetchWebflowPosts_status_error_or_empty_items:
  "((\<exists>msg. fetchWebflowPosts (Responded r) = Inl (Error msg)) = (\<not> ok r))
   \<and> (\<not> ok r \<longrightarrow>
        fetchWebflowPosts (Responded r) =
          Inl (Error (''Webflow API error: '' @ digits (status r) @ '' '' @ statusText r)))
   \<and> (ok r \<and> json r = Some data \<and> \<not> nullish data \<and> read_prop data ''items'' = JUndefined \<longrightarrow>
        fetchWebflowPosts (Responded r) = Inr (JArr []))"
proof (intro conjI impI)
  show "(\<exists>msg. fetchWebflowPosts (Responded r) = Inl (Error msg)) = (\<not> ok r)"
    by (auto simp: fetchWebflowPosts_def get_prop_def split: option.splits)
next
  assume "\<not> ok r"
  then show "fetchWebflowPosts (Responded r) =
          Inl (Error (''Webflow API error: '' @ digits (status r) @ '' '' @ statusText r))"
    by (simp add: fetchWebflowPosts_def)
next
  assume "ok r \<and> json r = Some data \<and> \<not> nullish data \<and> read_prop data ''items'' = JUndefined"
  then show "fetchWebflowPosts (Responded r) = Inr (JArr [])"
    by (simp add: fetchWebflowPosts_def get_prop_def js_or_def)
qed

theorem fetchWebflowPosts_status_error_or_empty_items_witness:
  "\<not> ok \<lparr>status = 403, statusText = ''Forbidden'', json = None\<rparr>
   \<and> fetchWebflowPosts (Responded \<lparr>status = 403, statusText = ''Forbidden'', json = None\<rparr>)
       = Inl (Error ''Webflow API error: 403 Forbidden'')
   \<and> ok \<lparr>status = 200, statusText = ''OK'', json = Some (JObj [(''total'', JNum 0)])\<rparr>
   \<and> fetchWebflowPosts
        (Responded \<lparr>status = 200, statusText = ''OK'', json = Some (JObj [(''total'', JNum 0)])\<rparr>)
       = Inr (JArr [])"
  using fetchWebflowPosts_status_error_or_empty_items
          [of "\<lparr>status = 403, statusText = ''Forbidden'', json = None\<rparr>" JNull]
        fetchWebflowPosts_status_error_or_empty_items
          [of "\<lparr>status = 200, statusText = ''OK'', json = Some (JObj [(''total'', JNum 0)])\<rparr>"
              "JObj [(''total'', JNum 0)]"]
  by (simp add: ok_def digit_char_def)

text \<open>
  C1: the handler sends exactly one response. When the fetch and the rendering succeed it
  is status 200 with the rendered document as the body. When the fetch fails, or the
  rendering after it, it is status 500 with the JSON body
  \<^verbatim>\<open>{"error": "Failed to generate RSS feed"}\<close>: the same response for every upstream
  status that is not a success, so a 403 of the upstream is answered with 500, and the
  body is never a document.
\<close>

theorem handler_sends_exactly_one_response:
  "\<exists>resp. sent (handler cfg clk outcome r0) = sent r0 @ [resp]
     \<and> (\<forall>posts xml. fetchWebflowPosts outcome = Inr posts \<and> generateRSS cfg clk posts = Inr xml
          \<longrightarrow> resp = (200, Text xml))
     \<and> (\<forall>e. fetchWebflowPosts outcome = Inl e
          \<longrightarrow> resp = (500, Json (JObj [(''error'', JStr ''Failed to generate RSS feed'')])))
     \<and> (\<forall>posts e. fetchWebflowPosts outcome = Inr posts \<and> generateRSS cfg clk posts = Inl e
          \<longrightarrow> resp = (500, Json (JObj [(''error'', JStr ''Failed to generate RSS feed'')])))
     \<and> (\<forall>r. outcome = Responded r \<and> \<not> ok r
          \<longrightarrow> resp = (500, Json (JObj [(''error'', JStr ''Failed to generate RSS feed'')]))
              \<and> (status r \<noteq> 500 \<longrightarrow> fst resp \<noteq> status r))"
proof (cases "and_then (fetchWebflowPosts outcome) (generateRSS cfg clk)")
  case (Inl e)
  then have s: "sent (handler cfg clk outcome r0) =
      sent r0 @ [(500, Json (JObj [(''error'', JStr ''Failed to generate RSS feed'')]))]"
    by (simp add: handler_def respond_def setHeader_def error_body_def)
  from Inl have no_doc: "\<not> (fetchWebflowPosts outcome = Inr posts \<and> generateRSS cfg clk posts = Inr xml)"
    for posts xml
    by auto
  show ?thesis
    by (rule exI [of _ "(500, Json (JObj [(''error'', JStr ''Failed to generate RSS feed'')]))"])
       (use s no_doc in auto)
next
  case (Inr xml)
  then obtain posts where f: "fetchWebflowPosts outcome = Inr posts"
    and g: "generateRSS cfg clk posts = Inr xml"
    by (auto simp: and_then_Inr_iff)
  from Inr have s: "sent (handler cfg clk outcome r0) = sent r0 @ [(200, Text xml)]"
    by (simp add: handler_def respond_def setHeader_def)
  from f have okr: "outcome = Responded r \<Longrightarrow> ok r" for r
    by (auto simp: fetchWebflowPosts_def split: if_splits)
  show ?thesis
    by (rule exI [of _ "(200, Text xml)"]) (use s f g okr in auto)
qed

theorem handler_sends_exactly_one_response_witness:
  "sent (handler (load_config Map.empty) epoch_clock
           (Responded \<lparr>status = 403, statusText = ''Forbidden'', json = None\<rparr>) new_res)
     = [(500, Json (JObj [(''error'', JStr ''Failed to generate RSS feed'')]))]
   \<and> sent (handler (load_config Map.empty) epoch_clock
           (Responded \<lparr>status = 200, statusText = ''OK'',
              json = Some (JObj [(''items'', JArr [])])\<rparr>) new_res)
     = [(200, Text (channel_xml (load_config Map.empty) ''Your Blog'' ''Latest blog posts''
                      ''Thu, 01 Jan 1970 00:00:00 GMT'' []))]"
  using handler_sends_exactly_one_response
          [of "load_config Map.empty" epoch_clock
              "Responded \<lparr>status = 403, statusText = ''Forbidden'', json = None\<rparr>" new_res]
        handler_sends_exactly_one_response
          [of "load_config Map.empty" epoch_clock
              "Responded \<lparr>status = 200, statusText = ''OK'',
                 json = Some (JObj [(''items'', JArr [])])\<rparr>" new_res]
  by (simp add: handler_def fetchWebflowPosts_def ok_def get_prop_def js_or_def generateRSS_def
        escapeXml_JStr entity_of_def respond_def setHeader_def new_res_def error_body_def
        default_config epoch_now)

end
